theory Spec2Isabelle
  imports Complex_Main "HOL-Library.Sublist" "HOL-Library.AList"
begin

section \<open>Text\<close>

text \<open>
  Answers, notes and column names are Python \<open>str\<close> values. They are modelled as
  \<^typ>\<open>string\<close>. The model is exact on ASCII text: \<open>upper\<close>, \<open>lower\<close> and the
  whitespace class of \<open>\s\<close> and \<open>strip\<close> act on the ASCII range, and a character beyond
  ASCII in a fixed text of the program is written as its UTF-8 bytes. Substring tests
  (\<open>w in t\<close>) agree with Python on such text.
\<close>

definition is_space :: "char \<Rightarrow> bool" where
  \<comment> \<open>tab, LF, VT, FF, CR, the separators FS GS RS US, and the blank\<close>
  "is_space c = (let n = (of_char c :: nat) in (9 \<le> n \<and> n \<le> 13) \<or> (28 \<le> n \<and> n \<le> 32))"

definition upper_char :: "char \<Rightarrow> char" where
  "upper_char c = (let n = (of_char c :: nat) in if 97 \<le> n \<and> n \<le> 122 then char_of (n - 32) else c)"

definition lower_char :: "char \<Rightarrow> char" where
  "lower_char c = (let n = (of_char c :: nat) in if 65 \<le> n \<and> n \<le> 90 then char_of (n + 32) else c)"

definition upper :: "string \<Rightarrow> string" where
  "upper s = map upper_char s"

definition lower :: "string \<Rightarrow> string" where
  "lower s = map lower_char s"

definition strip :: "string \<Rightarrow> string" where
  "strip s = rev (dropWhile is_space (rev (dropWhile is_space s)))"

fun contains :: "string \<Rightarrow> string \<Rightarrow> bool" where
  \<comment> \<open>\<open>contains w t\<close> is Python's \<open>w in t\<close>\<close>
  "contains w [] = (w = [])"
| "contains w (c # cs) = (prefix w (c # cs) \<or> contains w cs)"

fun show_nat :: "nat \<Rightarrow> string" where
  \<comment> \<open>the decimal text an f-string gives a non-negative \<open>int\<close>\<close>
  "show_nat n =
     (if n < 10 then [''0123456789'' ! n]
      else show_nat (n div 10) @ [''0123456789'' ! (n mod 10)])"

definition join_space :: "string list \<Rightarrow> string" where
  \<comment> \<open>\<open>" ".join(xs)\<close>\<close>
  "join_space xs = (case xs of [] \<Rightarrow> [] | y # ys \<Rightarrow> foldl (\<lambda>acc z. acc @ '' '' @ z) y ys)"

definition em_dash :: string where
  "em_dash = [CHR 0xE2, CHR 0x80, CHR 0x94]"

definition right_arrow :: string where
  "right_arrow = [CHR 0xE2, CHR 0x86, CHR 0x92]"

section \<open>Question bank\<close>

text \<open>
  A question is a dictionary with the keys \<open>id\<close>, \<open>type\<close>, \<open>prompt\<close>, \<open>example_answer\<close>
  and \<open>weight\<close>. A score is a Python \<open>float\<close>; scores are modelled as exact rationals, so
  \<open>0.9\<close> is \<open>9/10\<close> and \<open>hits/3.0\<close> is the exact third.
\<close>

record question =
  qid :: string
  qtype :: string
  prompt :: string
  example_answer :: string
  weight :: int

definition mk_question :: "string \<Rightarrow> string \<Rightarrow> string \<Rightarrow> string \<Rightarrow> int \<Rightarrow> question" where
  "mk_question i t p e w = \<lparr>qid = i, qtype = t, prompt = p, example_answer = e, weight = w\<rparr>"

definition QUESTIONS :: "question list" where
  \<open>QUESTIONS =
   [mk_question ''q1'' ''objective''
      ''Write an Excel formula that returns the SUM of column B only for rows where column A equals 'Sales'.''
      ''=SUMIFS(B:B, A:A, "Sales")'' 2,
    mk_question ''q2'' ''objective''
      ''Give a formula to lookup value in C2 from a table where key is in column A, robust to column re-ordering.''
      ''XLOOKUP(C2, A:A, B:B)'' 2,
    mk_question ''q3'' ''objective''
      ''Write an Excel formula to count how many cells in range D2:D100 contain text.''
      ''=COUNTIF(D2:D100,"*")'' 2,
    mk_question ''q4'' ''objective''
      ''Write a formula to calculate the average of numbers in column E, ignoring blanks.''
      ''=AVERAGE(E:E)'' 2,
    mk_question ''q5'' ''objective''
      ''Write a formula that extracts the year from a date in cell F2.''
      ''=YEAR(F2)'' 1,
    mk_question ''q6'' ''debug''
      ''You get #DIV/0! error in Excel. What are two common causes?''
      ''Dividing by zero; blank denominator.'' 2,
    mk_question ''q7'' ''debug''
      ''Your SUM formula =SUM(A1:A10) is returning 0 even though numbers are visible. List likely causes.''
      ''Cells formatted as text; hidden characters/spaces; not actually numeric values.'' 3,
    mk_question ''q8'' ''concept''
      ''Explain difference between Absolute ($A$1) and Relative (A1) references in formulas.''
      ''Absolute stays fixed when copied; Relative shifts with cell position.'' 2,
    mk_question ''q9'' ''concept''
      ''Explain difference between VLOOKUP and XLOOKUP in Excel.''
      ''XLOOKUP is more flexible, can search both directions, no need for column index, handles errors.'' 3,
    mk_question ''q10'' ''hands_on''
      ''Upload a CSV/XLSX with Date and Sales columns. How would you create a chart to show monthly sales trend?''
      (''Insert '' @ right_arrow @ '' Line chart, set X=Month(Date), Y=Sum(Sales).'') 4]\<close>

section \<open>Rule-based checks\<close>

text \<open>
  Each check takes the answer text. The source writes \<open>(ans or "")\<close>, which is the
  answer itself for every text value.
\<close>

definition normalize :: "string \<Rightarrow> string" where
  \<comment> \<open>\<open>re.sub(r"\s+", "", s).upper()\<close>: every whitespace character is deleted\<close>
  "normalize s = upper (filter (\<lambda>c. \<not> is_space c) s)"

definition check_sumifs :: "string \<Rightarrow> rat \<times> string list" where
  "check_sumifs ans =
     (let a = normalize ans in
      if contains ''SUMIFS'' a then (1, [''Uses SUMIFS''])
      else if contains ''SUMIF'' a then (9 / 10, [''Uses SUMIF (acceptable)''])
      else (0, [''SUMIF(S) not detected'']))"

definition check_xlookup :: "string \<Rightarrow> rat \<times> string list" where
  "check_xlookup ans =
     (let a = normalize ans in
      if contains ''XLOOKUP'' a \<or> (contains ''INDEX'' a \<and> contains ''MATCH'' a)
      then (1, [''Uses XLOOKUP / INDEX+MATCH''])
      else (0, [''XLOOKUP / INDEX+MATCH not detected'']))"

definition check_countif :: "string \<Rightarrow> rat \<times> string list" where
  "check_countif ans =
     (let a = normalize ans in
      if contains ''COUNTIF'' a \<or> contains ''COUNTA'' a then (1, [''Uses COUNTIF/COUNTA''])
      else (0, [''COUNTIF/COUNTA not detected'']))"

definition check_average :: "string \<Rightarrow> rat \<times> string list" where
  "check_average ans =
     (let a = normalize ans in
      if contains ''AVERAGE'' a \<or> contains ''AVERAGEIF'' a then (1, [''Uses AVERAGE/AverageIf''])
      else (0, [''AVERAGE not detected'']))"

definition check_year :: "string \<Rightarrow> rat \<times> string list" where
  "check_year ans =
     (let a = normalize ans in
      if contains ''YEAR('' a then (1, [''Uses YEAR()''])
      else (0, [''YEAR() not detected'']))"

definition check_div0 :: "string \<Rightarrow> rat \<times> string list" where
  "check_div0 ans =
     (let t = lower ans;
          h1 = (if contains ''zero'' t \<or> contains ''divide'' t then 1 else 0 :: nat);
          h2 = (if contains ''blank'' t \<or> contains ''empty'' t then 1 else 0 :: nat);
          hits = h1 + h2
      in (min 1 (of_nat hits / 2), [''matched '' @ show_nat hits @ '' causes'']))"

definition check_sum_zero :: "string \<Rightarrow> rat \<times> string list" where
  "check_sum_zero ans =
     (let t = lower ans;
          h1 = (if contains ''text'' t then 1 else 0 :: nat);
          h2 = (if contains ''format'' t \<or> contains ''formatted'' t then 1 else 0 :: nat);
          h3 = (if contains ''hidden'' t \<or> contains ''space'' t then 1 else 0 :: nat);
          hits = h1 + h2 + h3
      in (min 1 (of_nat hits / 3), [''matched '' @ show_nat hits @ '' reasons'']))"

definition pivot_keywords :: "string list" where
  "pivot_keywords = [''pivot'', ''chart'', ''rows'', ''columns'', ''values'', ''month'', ''sum'', ''line'']"

definition check_pivot_steps :: "string \<Rightarrow> rat \<times> string list" where
  "check_pivot_steps ans =
     (let t = lower ans;
          hits = length (filter (\<lambda>w. contains w t) pivot_keywords)
      in (min 1 (of_nat hits / 4), [''matched '' @ show_nat hits @ '' chart/pivot keywords'']))"

definition grade :: "question \<Rightarrow> string \<Rightarrow> rat \<times> string list" where
  "grade q answer =
     (if qid q = ''q1'' then check_sumifs answer
      else if qid q = ''q2'' then check_xlookup answer
      else if qid q = ''q3'' then check_countif answer
      else if qid q = ''q4'' then check_average answer
      else if qid q = ''q5'' then check_year answer
      else if qid q = ''q6'' then check_div0 answer
      else if qid q = ''q7'' then check_sum_zero answer
      else if qid q = ''q8'' then
        (let t = lower answer;
             ok = list_ex (\<lambda>w. contains w t) [''absolute'', ''relative'', ''$a$1'', ''a1'']
         in if ok then (1, [''Explains absolute vs relative''])
            else (0, [''Does not explain absolute vs relative'']))
      else if qid q = ''q9'' then
        (let t = lower answer;
             ok = list_ex (\<lambda>w. contains w t)
                    [''xlookup'', ''vlookup'', ''index'', ''match'', ''both directions'']
         in if ok then (1, [''Mentions key differences''])
            else (0, [''Does not mention differences'']))
      else if qid q = ''q10'' then check_pivot_steps answer
      else (0, [''no rule'']))"

section \<open>Feedback templates\<close>

definition tip_if :: "bool \<Rightarrow> string \<Rightarrow> string list" where
  \<comment> \<open>\<open>if b: tips.append(t)\<close>, as the list it adds\<close>
  "tip_if b t = (if b then [t] else [])"

definition feedback_from_notes :: "string \<Rightarrow> string list \<Rightarrow> string" where
  "feedback_from_notes i ns =
     (let joined = lower (join_space ns);
          tips =
            tip_if (contains ''sumifs'' joined)
              ''Good: you used SUMIFS. Tip: consider using Table references for robustness.''
          @ tip_if (contains ''sumif'' joined \<and> \<not> contains ''sumifs'' joined)
              ''Partial: SUMIF works for single conditions; SUMIFS handles multiple conditions.''
          @ tip_if (contains ''xlookup'' joined \<or> contains ''index'' joined)
              ''Good: using XLOOKUP/INDEX+MATCH is robust to column re-ordering.''
          @ tip_if (contains ''countif'' joined \<or> contains ''counta'' joined)
              ''COUNTIF / COUNTA are good for counting text/non-empty cells.''
          @ tip_if (contains ''average'' joined)
              ''AVERAGE ignores blanks; AVERAGEIF can help with conditions.''
          @ tip_if (contains ''year'' joined)
              (''YEAR() extracts year from dates '' @ em_dash @ '' useful for grouping by year.'')
          @ tip_if (contains ''div0'' joined \<or> contains ''divide'' joined)
              ''Check denominators and handle zero or blank cases (IFERROR or conditional checks).''
          @ tip_if (contains ''pivot'' joined \<or> contains ''chart'' joined)
              ''Good: use PivotTables or Group by Month to summarize time-series data.'';
          tips' =
            (if tips = [] then
               (if prefix ''q1'' i \<or> prefix ''q2'' i \<or> prefix ''q3'' i \<or> prefix ''q4'' i
                   \<or> prefix ''q5'' i
                then [''If unsure, include the exact formula syntax (e.g., =SUMIFS(...)).'']
                else [''Try to mention concrete functions or steps (keywords help the grader).''])
             else tips)
      in join_space (take 2 tips'))"

section \<open>Confidence\<close>

definition confidence_label :: "rat \<Rightarrow> string" where
  "confidence_label score =
     (if score \<ge> 8 / 10 then ''High''
      else if score \<ge> 4 / 10 then ''Medium''
      else ''Low'')"

section \<open>Session state\<close>

text \<open>
  The session holds three dictionaries keyed by question id (\<open>notes\<close> is the field
  \<open>all_notes\<close>). A dictionary is an
  association list in insertion order; \<open>d[k] = v\<close> is \<^const>\<open>AList.update\<close> and
  \<open>d.get(k, x)\<close> is \<open>get_or\<close>. The uploaded-table preview and the monthly aggregate
  of the session are rendering data and are left out of the record.
\<close>

record session =
  started :: bool
  current_q :: nat
  responses :: "(string \<times> string) list"
  scores :: "(string \<times> rat) list"
  all_notes :: "(string \<times> string list) list"
  started_at :: "string option"
  show_intro :: bool
  candidate_name :: "string option"

definition get_or :: "('k \<times> 'v) list \<Rightarrow> 'k \<Rightarrow> 'v \<Rightarrow> 'v" where
  "get_or d k x = (case map_of d k of None \<Rightarrow> x | Some v \<Rightarrow> v)"

definition has_key :: "('k \<times> 'v) list \<Rightarrow> 'k \<Rightarrow> bool" where
  \<comment> \<open>\<open>k in d\<close>\<close>
  "has_key d k = (map_of d k \<noteq> None)"

definition initial_session :: session where
  "initial_session =
     \<lparr>started = False, current_q = 0, responses = [], scores = [], all_notes = [],
      started_at = None, show_intro = False, candidate_name = None\<rparr>"

definition start_reset :: "string \<Rightarrow> string \<Rightarrow> session \<Rightarrow> session" where
  \<comment> \<open>the Start / Reset button; \<open>now\<close> is the clock's text, \<open>candidate\<close> the name typed in\<close>
  "start_reset now candidate st =
     st\<lparr>started := True, started_at := Some now, current_q := 0, responses := [],
        scores := [], all_notes := [], show_intro := True, candidate_name := Some candidate\<rparr>"

definition submit :: "string \<Rightarrow> string option \<Rightarrow> session \<Rightarrow> session" where
  \<comment> \<open>the Submit button of the question shown; \<open>pivot_note\<close> is the validator's note of
      this step, if a file was uploaded\<close>
  "submit answer pivot_note st =
     (if started st \<and> current_q st < length QUESTIONS then
        (let q = QUESTIONS ! current_q st;
             (score, ns) = grade q answer;
             ns' = (case pivot_note of
                      Some pn \<Rightarrow> if qtype q = ''hands_on'' \<and> pn \<noteq> [] then ns @ [pn] else ns
                    | None \<Rightarrow> ns)
         in st\<lparr>responses := AList.update (qid q) answer (responses st),
               scores := AList.update (qid q) score (scores st),
               all_notes := AList.update (qid q) ns' (all_notes st),
               current_q := current_q st + 1\<rparr>)
      else st)"

definition skip :: "session \<Rightarrow> session" where
  "skip st =
     (if started st \<and> current_q st < length QUESTIONS then
        (let q = QUESTIONS ! current_q st
         in st\<lparr>responses := AList.update (qid q) [] (responses st),
               scores := AList.update (qid q) 0 (scores st),
               all_notes := AList.update (qid q) [''skipped''] (all_notes st),
               current_q := current_q st + 1\<rparr>)
      else st)"

section \<open>Report\<close>

record review_item =
  ri_question :: string
  ri_answer :: string
  ri_notes :: "string list"

record report =
  strengths :: "string list"
  weaknesses :: "(string \<times> string) list"
  review_queue :: "review_item list"

definition report_step :: "session \<Rightarrow> report \<Rightarrow> question \<Rightarrow> report" where
  \<comment> \<open>one round of the loop over the bank\<close>
  "report_step st r q =
     (if has_key (responses st) (qid q) then
        (let ans = get_or (responses st) (qid q) [];
             score = get_or (scores st) (qid q) 0;
             ns = get_or (all_notes st) (qid q) [];
             friendly = feedback_from_notes (qid q) ns
         in \<lparr>strengths = strengths r @ (if score \<ge> 8 / 10 then [prompt q] else []),
             weaknesses = weaknesses r @ (if score \<le> 4 / 10 then [(prompt q, friendly)] else []),
             review_queue = review_queue r @
               (if score < 4 / 10
                then [\<lparr>ri_question = prompt q, ri_answer = ans, ri_notes = ns\<rparr>] else [])\<rparr>)
      else r)"

definition collect :: "session \<Rightarrow> question list \<Rightarrow> report" where
  "collect st qs = foldl (report_step st) \<lparr>strengths = [], weaknesses = [], review_queue = []\<rparr> qs"

definition round_half_even :: "rat \<Rightarrow> int" where
  "round_half_even x =
     (let f = \<lfloor>x\<rfloor>; d = x - of_int f
      in if d < 1 / 2 then f else if d > 1 / 2 then f + 1 else if even f then f else f + 1)"

definition round1 :: "rat \<Rightarrow> rat" where
  \<comment> \<open>\<open>round(x, 1)\<close>\<close>
  "round1 x = of_int (round_half_even (x * 10)) / 10"

definition total_w :: "question list \<Rightarrow> int" where
  "total_w qs = sum_list (map weight qs)"

definition score_sum :: "session \<Rightarrow> question list \<Rightarrow> rat" where
  "score_sum st qs = sum_list (map (\<lambda>q. get_or (scores st) (qid q) 0 * of_int (weight q)) qs)"

definition overall_of :: "session \<Rightarrow> question list \<Rightarrow> rat" where
  "overall_of st qs =
     (if total_w qs \<noteq> 0 then round1 (100 * (score_sum st qs / of_int (total_w qs))) else 0)"

definition header_overall :: "session \<Rightarrow> rat" where
  \<comment> \<open>the badge of the top bar, also the \<open>overall\<close> of the sidebar's transcript\<close>
  "header_overall st = (if responses st \<noteq> [] then overall_of st QUESTIONS else 0)"

definition final_report :: "session \<Rightarrow> (report \<times> rat) option" where
  \<comment> \<open>the review panel and its transcript: the lists and the overall score; nothing
      is built while no response exists\<close>
  "final_report st =
     (if responses st \<noteq> [] then Some (collect st QUESTIONS, overall_of st QUESTIONS) else None)"

definition answered_overall :: "session \<Rightarrow> question list \<Rightarrow> rat" where
  \<comment> \<open>the specification's formula: both sums over the questions with a recorded grade\<close>
  "answered_overall st qs =
     (let graded = filter (\<lambda>q. has_key (scores st) (qid q)) qs
      in 100 * sum_list (map (\<lambda>q. get_or (scores st) (qid q) 0 * of_int (weight q)) graded)
             / of_int (sum_list (map weight graded)))"

section \<open>Hands-on pivot validation\<close>

text \<open>
  The table is a pandas data frame. A column label is text, as a header row of text
  gives it, or a value of another Python type (a spreadsheet header cell that holds
  a number gives an \<open>int\<close> or a \<open>float\<close>). The operations of the library are parameters of
  the model: each either returns its value or raises an exception, of which the text
  is kept (\<open>Inl\<close>). The exceptions are those a step raises on the table it is given;
  all of them derive from \<open>Exception\<close>.
\<close>

type_synonym exn = string

datatype label = Text string | Other string
  \<comment> \<open>\<open>Other t\<close> is a label that is not text, of the Python type named \<open>t\<close>\<close>

record ('df, 'm) pandas =
  pd_columns :: "'df \<Rightarrow> label list"
  pd_to_datetime :: "'df \<Rightarrow> string \<Rightarrow> exn + 'df"
  pd_isna_all :: "'df \<Rightarrow> string \<Rightarrow> exn + bool"
  pd_to_numeric :: "'df \<Rightarrow> string \<Rightarrow> exn + 'df"
  pd_monthly :: "'df \<Rightarrow> string \<Rightarrow> string \<Rightarrow> exn + 'm"
  pd_len :: "'m \<Rightarrow> nat"
  pd_first_total :: "'m \<Rightarrow> string \<Rightarrow> exn + string"

definition attribute_error :: "string \<Rightarrow> exn" where
  \<comment> \<open>the text of the AttributeError that \<open>c.strip()\<close> raises on a value of type \<open>t\<close>\<close>
  "attribute_error t =
     [CHR 0x27] @ t @ [CHR 0x27] @ '' object has no attribute '' @ [CHR 0x27] @ ''strip'' @ [CHR 0x27]"

definition strip_lower :: "label \<Rightarrow> exn + string" where
  \<comment> \<open>\<open>c.strip().lower()\<close>\<close>
  "strip_lower c = (case c of Text s \<Rightarrow> Inr (lower (strip s)) | Other t \<Rightarrow> Inl (attribute_error t))"

fun strip_lower_all :: "label list \<Rightarrow> exn + string list" where
  \<comment> \<open>\<open>[c.strip().lower() for c in df.columns]\<close>: it stops at the first label that raises\<close>
  "strip_lower_all [] = Inr []"
| "strip_lower_all (c # cs) =
     (case strip_lower c of
        Inl e \<Rightarrow> Inl e
      | Inr lc \<Rightarrow> (case strip_lower_all cs of Inl e \<Rightarrow> Inl e | Inr lcs \<Rightarrow> Inr (lc # lcs)))"

fun label_texts :: "label list \<Rightarrow> string list" where
  \<comment> \<open>the names of the text labels, in column order\<close>
  "label_texts [] = []"
| "label_texts (Text s # cs) = s # label_texts cs"
| "label_texts (Other t # cs) = label_texts cs"

definition is_text :: "label \<Rightarrow> bool" where
  "is_text c = (case c of Text s \<Rightarrow> True | Other t \<Rightarrow> False)"

definition is_date_name :: "string \<Rightarrow> bool" where
  "is_date_name c = contains ''date'' (lower (strip c))"

definition is_sales_name :: "string \<Rightarrow> bool" where
  "is_sales_name c =
     (let lc = lower (strip c)
      in contains ''sales'' lc \<or> contains ''amount'' lc \<or> contains ''revenue'' lc)"

definition is_date_label :: "label \<Rightarrow> bool" where
  \<comment> \<open>the label is a name that contains "date"; a label that is not text contains no text\<close>
  "is_date_label c = (case c of Text s \<Rightarrow> is_date_name s | Other t \<Rightarrow> False)"

definition is_sales_label :: "label \<Rightarrow> bool" where
  "is_sales_label c = (case c of Text s \<Rightarrow> is_sales_name s | Other t \<Rightarrow> False)"

fun find_cols :: "string list \<Rightarrow> string option \<Rightarrow> string option \<Rightarrow> string option \<times> string option" where
  \<comment> \<open>the loop over \<open>df.columns\<close>, carrying \<open>date_col\<close> and \<open>sales_col\<close>\<close>
  "find_cols [] date_col sales_col = (date_col, sales_col)"
| "find_cols (c # cs) date_col sales_col =
     find_cols cs (if is_date_name c then Some c else date_col)
                  (if is_sales_name c then Some c else sales_col)"

definition show_col :: "string option \<Rightarrow> string" where
  \<comment> \<open>a column name, or \<open>None\<close>, inside an f-string\<close>
  "show_col c = (case c of None \<Rightarrow> ''None'' | Some n \<Rightarrow> n)"

text \<open>
  The body of the \<open>try\<close> first builds the list \<open>cols\<close> of stripped and lowered labels,
  which raises on a label that is not text and is not read again. The loop that
  selects the columns runs only after that, so every label it sees is text and
  \<^const>\<open>label_texts\<close> gives it all of them.
\<close>

definition pivot_validate_try :: "('df, 'm) pandas \<Rightarrow> 'df \<Rightarrow> exn + (bool \<times> string \<times> 'm option)" where
  \<comment> \<open>the body of the \<open>try\<close>\<close>
  "pivot_validate_try P df =
     (case strip_lower_all (pd_columns P df) of
        Inl e \<Rightarrow> Inl e
      | Inr cols \<Rightarrow>
     (case find_cols (label_texts (pd_columns P df)) None None of
        (Some date_col, Some sales_col) \<Rightarrow>
          (case pd_to_datetime P df date_col of
             Inl e \<Rightarrow> Inl e
           | Inr df2 \<Rightarrow>
          (case pd_isna_all P df2 date_col of
             Inl e \<Rightarrow> Inl e
           | Inr all_na \<Rightarrow>
          if all_na then Inr (False, ''All date values could not be parsed.'', None)
          else
          (case pd_to_numeric P df2 sales_col of
             Inl e \<Rightarrow> Inl e
           | Inr df3 \<Rightarrow>
          (case pd_monthly P df3 date_col sales_col of
             Inl e \<Rightarrow> Inl e
           | Inr monthly \<Rightarrow>
          (case (if pd_len P monthly > 0 then pd_first_total P monthly sales_col
                 else Inr ''N/A'') of
             Inl e \<Rightarrow> Inl e
           | Inr first_total \<Rightarrow>
             Inr (True,
                  ''Pivot OK '' @ em_dash @ '' found '' @ show_nat (pd_len P monthly)
                    @ '' months; sample total for first month: '' @ first_total,
                  Some monthly))))))
      | (date_col, sales_col) \<Rightarrow>
          Inr (False,
               ''Missing columns: date_col='' @ show_col date_col
                 @ '', sales_col='' @ show_col sales_col,
               None)))"

definition pivot_validate_dataframe :: "('df, 'm) pandas \<Rightarrow> 'df \<Rightarrow> exn + (bool \<times> string \<times> 'm option)" where
  \<comment> \<open>what the caller gets: \<open>Inr\<close> a returned triple, \<open>Inl\<close> an exception that reaches it.
      The handler \<open>except Exception as e\<close> turns what the body raises into a triple.\<close>
  "pivot_validate_dataframe P df =
     (case pivot_validate_try P df of
        Inr r \<Rightarrow> Inr r
      | Inl e \<Rightarrow> Inr (False, ''Pivot validation error: '' @ e, None))"

definition header_only :: "(label list, unit) pandas" where
  \<comment> \<open>tables that are a header row with no data rows: the frame is its list of column
      labels, and every value of an empty column is missing\<close>
  "header_only =
     \<lparr>pd_columns = (\<lambda>df. df),
      pd_to_datetime = (\<lambda>df c. Inr df),
      pd_isna_all = (\<lambda>df c. Inr True),
      pd_to_numeric = (\<lambda>df c. Inr df),
      pd_monthly = (\<lambda>df d s. Inr ()),
      pd_len = (\<lambda>m. 0),
      pd_first_total = (\<lambda>m s. Inr ''N/A'')\<rparr>"

definition failing_step :: "nat \<Rightarrow> exn \<Rightarrow> (label list, unit) pandas" where
  \<comment> \<open>tables, given by their labels, on which the \<open>k\<close>-th library step raises \<open>e\<close>
      (1 the date conversion, 2 the test for missing dates, 3 the numeric conversion,
      4 the grouping by month, 5 the reading of the first total) and the others
      succeed with one month of total 10.0; no step raises when \<open>k\<close> is 0\<close>
  "failing_step k e =
     \<lparr>pd_columns = (\<lambda>df. df),
      pd_to_datetime = (\<lambda>df c. if k = 1 then Inl e else Inr df),
      pd_isna_all = (\<lambda>df c. if k = 2 then Inl e else Inr False),
      pd_to_numeric = (\<lambda>df c. if k = 3 then Inl e else Inr df),
      pd_monthly = (\<lambda>df d s. if k = 4 then Inl e else Inr ()),
      pd_len = (\<lambda>m. 1),
      pd_first_total = (\<lambda>m s. if k = 5 then Inl e else Inr ''10.0'')\<rparr>"

section \<open>Sample sessions and tables\<close>

definition one_answer_session :: session where
  \<comment> \<open>Start, then Submit of the example answer to the first question\<close>
  \<open>one_answer_session =
     submit ''=SUMIFS(B:B, A:A, "Sales")'' None
       (start_reset ''2024-01-01T00:00:00'' ''Candidate'' initial_session)\<close>

definition skipped_session :: session where
  \<comment> \<open>Start, then Skip of the first question\<close>
  "skipped_session = skip (start_reset ''2024-01-01T00:00:00'' ''Candidate'' initial_session)"

definition boundary_session :: session where
  \<comment> \<open>a session whose first question holds the score 0.4\<close>
  "boundary_session =
     initial_session\<lparr>started := True, current_q := 1, responses := [(''q1'', ''sumif?'')],
       scores := [(''q1'', 4 / 10)], all_notes := [(''q1'', [''partial''])]\<rparr>"

definition grade_ok :: "rat \<times> string list \<Rightarrow> bool" where
  "grade_ok r = (0 \<le> fst r \<and> fst r \<le> 1 \<and> snd r \<noteq> [])"

section \<open>Facts about text\<close>

lemma contains_hd: "contains w t \<Longrightarrow> w \<noteq> [] \<Longrightarrow> hd w \<in> set t"
proof (induction t)
  case Nil
  then show ?case by simp
next
  case (Cons c cs)
  then show ?case by (cases w) (auto simp: prefix_def)
qed

lemma contains_self: "contains w w"
  by (cases w) simp_all

lemma contains_suffix: "contains w (p @ w)"
  by (induction p) (simp_all add: contains_self)

lemma lower_char_space: "is_space c \<Longrightarrow> lower_char c = c"
  by (auto simp: is_space_def lower_char_def Let_def)

lemma lower_blank: "list_all is_space s \<Longrightarrow> lower s = s"
  by (induction s) (auto simp: lower_def lower_char_space)

lemma normalize_blank: "list_all is_space s \<Longrightarrow> normalize s = []"
  by (induction s) (auto simp: normalize_def upper_def)

lemma blank_no_word:
  assumes "list_all is_space s" "w \<noteq> []" "\<not> is_space (hd w)"
  shows "\<not> contains w (lower s)"
proof
  assume "contains w (lower s)"
  then have "hd w \<in> set s"
    using contains_hd assms(1,2) lower_blank by metis
  then show False
    using assms(1,3) by (auto simp: list_all_iff)
qed

lemma letters_not_space:
  "\<not> is_space CHR ''z''" "\<not> is_space CHR ''d''" "\<not> is_space CHR ''b''"
  "\<not> is_space CHR ''e''" "\<not> is_space CHR ''t''" "\<not> is_space CHR ''f''"
  "\<not> is_space CHR ''h''" "\<not> is_space CHR ''s''" "\<not> is_space CHR ''a''"
  "\<not> is_space CHR ''r''" "\<not> is_space CHR ''$''" "\<not> is_space CHR ''x''"
  "\<not> is_space CHR ''v''" "\<not> is_space CHR ''i''" "\<not> is_space CHR ''m''"
  "\<not> is_space CHR ''p''" "\<not> is_space CHR ''c''" "\<not> is_space CHR ''l''"
  by (simp_all add: is_space_def)

lemma find_app:
  "find P (xs @ ys) = (case find P xs of None \<Rightarrow> find P ys | Some x \<Rightarrow> Some x)"
  by (induction xs) simp_all

lemma find_none_iff_ex: "find P xs = None \<longleftrightarrow> \<not> list_ex P xs"
  by (auto simp: find_None_iff list_ex_iff)

section \<open>Facts about grading\<close>

lemma grade_cases:
  assumes "P (check_sumifs a)" "P (check_xlookup a)" "P (check_countif a)" "P (check_average a)"
    "P (check_year a)" "P (check_div0 a)" "P (check_sum_zero a)"
    "P (let t = lower a;
            ok = list_ex (\<lambda>w. contains w t) [''absolute'', ''relative'', ''$a$1'', ''a1'']
        in if ok then (1, [''Explains absolute vs relative''])
           else (0, [''Does not explain absolute vs relative'']))"
    "P (let t = lower a;
            ok = list_ex (\<lambda>w. contains w t)
                   [''xlookup'', ''vlookup'', ''index'', ''match'', ''both directions'']
        in if ok then (1, [''Mentions key differences''])
           else (0, [''Does not mention differences'']))"
    "P (check_pivot_steps a)" "P (0, [''no rule''])"
  shows "P (grade q a)"
  unfolding grade_def using assms by (simp only: if_split) blast

lemma checks_ok:
  "grade_ok (check_sumifs a)" "grade_ok (check_xlookup a)" "grade_ok (check_countif a)"
  "grade_ok (check_average a)" "grade_ok (check_year a)" "grade_ok (check_div0 a)"
  "grade_ok (check_sum_zero a)" "grade_ok (check_pivot_steps a)"
  by (simp_all add: grade_ok_def check_sumifs_def check_xlookup_def check_countif_def
      check_average_def check_year_def check_div0_def check_sum_zero_def check_pivot_steps_def
      Let_def)

lemma grade_is_ok: "grade_ok (grade q a)"
  by (rule grade_cases[where P = grade_ok])
    (simp_all add: checks_ok, simp_all add: grade_ok_def Let_def)

lemma checks_blank:
  assumes "list_all is_space s"
  shows "fst (check_sumifs s) = 0" "fst (check_xlookup s) = 0" "fst (check_countif s) = 0"
    "fst (check_average s) = 0" "fst (check_year s) = 0" "fst (check_div0 s) = 0"
    "fst (check_sum_zero s) = 0" "fst (check_pivot_steps s) = 0"
  using blank_no_word[OF assms] normalize_blank[OF assms]
  by (simp_all add: check_sumifs_def check_xlookup_def check_countif_def
      check_average_def check_year_def check_div0_def check_sum_zero_def check_pivot_steps_def
      pivot_keywords_def Let_def letters_not_space)

lemma grade_blank_any:
  assumes "list_all is_space s"
  shows "fst (grade q s) = 0"
  using blank_no_word[OF assms]
  by (intro grade_cases[where P = "\<lambda>r. fst r = 0"])
    (simp_all add: checks_blank[OF assms] Let_def letters_not_space)

lemma first_question_id: "qid (QUESTIONS ! 0) = ''q1''"
  by (simp add: QUESTIONS_def mk_question_def)

lemma grade_first_question: "grade (QUESTIONS ! 0) a = check_sumifs a"
  by (simp add: grade_def first_question_id)

section \<open>Facts about the report\<close>

lemma report_step_fields:
  "strengths (report_step st r q) = strengths r @
     (if has_key (responses st) (qid q) \<and> get_or (scores st) (qid q) 0 \<ge> 8 / 10
      then [prompt q] else [])"
  "weaknesses (report_step st r q) = weaknesses r @
     (if has_key (responses st) (qid q) \<and> get_or (scores st) (qid q) 0 \<le> 4 / 10
      then [(prompt q, feedback_from_notes (qid q) (get_or (all_notes st) (qid q) []))] else [])"
  "review_queue (report_step st r q) = review_queue r @
     (if has_key (responses st) (qid q) \<and> get_or (scores st) (qid q) 0 < 4 / 10
      then [\<lparr>ri_question = prompt q, ri_answer = get_or (responses st) (qid q) [],
             ri_notes = get_or (all_notes st) (qid q) []\<rparr>] else [])"
  by (simp_all add: report_step_def Let_def)

lemma foldl_weaknesses:
  "weaknesses (foldl (report_step st) r qs) = weaknesses r @
     map (\<lambda>q. (prompt q, feedback_from_notes (qid q) (get_or (all_notes st) (qid q) [])))
       (filter (\<lambda>q. has_key (responses st) (qid q) \<and> get_or (scores st) (qid q) 0 \<le> 4 / 10) qs)"
  by (induction qs arbitrary: r) (simp_all add: report_step_fields)

lemma foldl_review_queue:
  "review_queue (foldl (report_step st) r qs) = review_queue r @
     map (\<lambda>q. \<lparr>ri_question = prompt q, ri_answer = get_or (responses st) (qid q) [],
               ri_notes = get_or (all_notes st) (qid q) []\<rparr>)
       (filter (\<lambda>q. has_key (responses st) (qid q) \<and> get_or (scores st) (qid q) 0 < 4 / 10) qs)"
  by (induction qs arbitrary: r) (simp_all add: report_step_fields)

lemma collect_weaknesses:
  "weaknesses (collect st qs) =
     map (\<lambda>q. (prompt q, feedback_from_notes (qid q) (get_or (all_notes st) (qid q) [])))
       (filter (\<lambda>q. has_key (responses st) (qid q) \<and> get_or (scores st) (qid q) 0 \<le> 4 / 10) qs)"
  by (simp add: collect_def foldl_weaknesses)

lemma collect_review_queue:
  "review_queue (collect st qs) =
     map (\<lambda>q. \<lparr>ri_question = prompt q, ri_answer = get_or (responses st) (qid q) [],
               ri_notes = get_or (all_notes st) (qid q) []\<rparr>)
       (filter (\<lambda>q. has_key (responses st) (qid q) \<and> get_or (scores st) (qid q) 0 < 4 / 10) qs)"
  by (simp add: collect_def foldl_review_queue)

lemma low_iff: "s < 4 / 10 \<longleftrightarrow> confidence_label s = ''Low''"
  by (auto simp: confidence_label_def)

lemma prompts_distinct: "distinct (map prompt QUESTIONS)"
  by code_simp

lemma prompt_inj:
  "q \<in> set QUESTIONS \<Longrightarrow> q' \<in> set QUESTIONS \<Longrightarrow> prompt q = prompt q' \<Longrightarrow> q = q'"
  using prompts_distinct by (meson distinct_map inj_onD)

lemma score_sum_graded:
  "score_sum st qs =
     sum_list (map (\<lambda>q. get_or (scores st) (qid q) 0 * of_int (weight q))
                 (filter (\<lambda>q. has_key (scores st) (qid q)) qs))"
  unfolding score_sum_def
  by (induction qs) (auto simp: get_or_def has_key_def)

lemma total_w_bank: "total_w QUESTIONS = 23"
  by code_simp

section \<open>Facts about the validator\<close>

lemma find_cols_last:
  "find_cols cs d s =
     (case find is_date_name (rev cs) of None \<Rightarrow> d | Some c \<Rightarrow> Some c,
      case find is_sales_name (rev cs) of None \<Rightarrow> s | Some c \<Rightarrow> Some c)"
proof (induction cs arbitrary: d s)
  case Nil
  show ?case by simp
next
  case (Cons c cs)
  show ?case
    by (simp add: Cons.IH find_app split: option.splits)
qed

lemma find_cols_start:
  "find_cols cs None None = (find is_date_name (rev cs), find is_sales_name (rev cs))"
  by (simp add: find_cols_last split: option.splits)

lemma strip_lower_all_texts:
  "strip_lower_all ls = Inr cols \<Longrightarrow> map Text (label_texts ls) = ls"
proof (induction ls arbitrary: cols)
  case Nil
  show ?case by simp
next
  case (Cons c cs)
  then show ?case
    by (cases c) (auto simp: strip_lower_def split: sum.splits)
qed

lemma strip_lower_all_text:
  "list_all is_text ls \<Longrightarrow> \<exists>cols. strip_lower_all ls = Inr cols"
proof (induction ls)
  case Nil
  show ?case by simp
next
  case (Cons c cs)
  then show ?case
    by (cases c) (auto simp: strip_lower_def is_text_def)
qed

lemma label_texts_date:
  "list_ex is_date_name (label_texts ls) = list_ex is_date_label ls"
  by (induction ls rule: label_texts.induct) (simp_all add: is_date_label_def)

lemma label_texts_sales:
  "list_ex is_sales_name (label_texts ls) = list_ex is_sales_label ls"
  by (induction ls rule: label_texts.induct) (simp_all add: is_sales_label_def)

lemma try_scan_raises:
  "strip_lower_all (pd_columns P df) = Inl e \<Longrightarrow> pivot_validate_try P df = Inl e"
  by (simp add: pivot_validate_try_def)

lemma try_missing:
  assumes "strip_lower_all (pd_columns P df) = Inr cols"
    and "find is_date_name (rev (label_texts (pd_columns P df))) = None
         \<or> find is_sales_name (rev (label_texts (pd_columns P df))) = None"
  shows "pivot_validate_try P df =
     Inr (False,
          ''Missing columns: date_col=''
            @ show_col (find is_date_name (rev (label_texts (pd_columns P df))))
            @ '', sales_col=''
            @ show_col (find is_sales_name (rev (label_texts (pd_columns P df)))),
          None)"
  using assms unfolding pivot_validate_try_def find_cols_start
  by (auto split: option.splits)

lemma try_dates_raise:
  assumes "strip_lower_all (pd_columns P df) = Inr cols"
    and "find_cols (label_texts (pd_columns P df)) None None = (Some d, Some s)"
    and "pd_to_datetime P df d = Inl e"
  shows "pivot_validate_try P df = Inl e"
  using assms by (simp add: pivot_validate_try_def)

lemma try_isna_raises:
  assumes "strip_lower_all (pd_columns P df) = Inr cols"
    and "find_cols (label_texts (pd_columns P df)) None None = (Some d, Some s)"
    and "pd_to_datetime P df d = Inr df2" and "pd_isna_all P df2 d = Inl e"
  shows "pivot_validate_try P df = Inl e"
  using assms by (simp add: pivot_validate_try_def)

lemma try_numeric_raises:
  assumes "strip_lower_all (pd_columns P df) = Inr cols"
    and "find_cols (label_texts (pd_columns P df)) None None = (Some d, Some s)"
    and "pd_to_datetime P df d = Inr df2" and "pd_isna_all P df2 d = Inr False"
    and "pd_to_numeric P df2 s = Inl e"
  shows "pivot_validate_try P df = Inl e"
  using assms by (simp add: pivot_validate_try_def)

lemma try_monthly_raises:
  assumes "strip_lower_all (pd_columns P df) = Inr cols"
    and "find_cols (label_texts (pd_columns P df)) None None = (Some d, Some s)"
    and "pd_to_datetime P df d = Inr df2" and "pd_isna_all P df2 d = Inr False"
    and "pd_to_numeric P df2 s = Inr df3" and "pd_monthly P df3 d s = Inl e"
  shows "pivot_validate_try P df = Inl e"
  using assms by (simp add: pivot_validate_try_def)

lemma try_total_raises:
  assumes "strip_lower_all (pd_columns P df) = Inr cols"
    and "find_cols (label_texts (pd_columns P df)) None None = (Some d, Some s)"
    and "pd_to_datetime P df d = Inr df2" and "pd_isna_all P df2 d = Inr False"
    and "pd_to_numeric P df2 s = Inr df3" and "pd_monthly P df3 d s = Inr m"
    and "0 < pd_len P m" and "pd_first_total P m s = Inl e"
  shows "pivot_validate_try P df = Inl e"
  using assms by (simp add: pivot_validate_try_def)

lemma handler_catches:
  "pivot_validate_try P df = Inl e \<Longrightarrow>
   pivot_validate_dataframe P df = Inr (False, ''Pivot validation error: '' @ e, None)"
  by (simp add: pivot_validate_dataframe_def)

lemma always_returns:
  "\<exists>ok note agg. pivot_validate_dataframe P df = Inr (ok, note, agg)"
  by (cases "pivot_validate_try P df") (auto simp: pivot_validate_dataframe_def)

section \<open>The claims\<close>

text \<open>
  C6. For every question of the bank, an answer that is empty or made of whitespace
  characters only is graded with the score 0.
\<close>

theorem blank_answer_scores_zero:
  assumes "q \<in> set QUESTIONS" and "list_all is_space s"
  shows "fst (grade q s) = 0"
  using assms(2) by (rule grade_blank_any)

theorem blank_answer_scores_zero_witness:
  "QUESTIONS ! 6 \<in> set QUESTIONS
   \<and> list_all is_space [CHR '' '', CHR 0x09, CHR 0x0A]
   \<and> fst (grade (QUESTIONS ! 6) [CHR '' '', CHR 0x09, CHR 0x0A]) = 0
   \<and> fst (grade (QUESTIONS ! 6) []) = 0"
proof -
  have m: "QUESTIONS ! 6 \<in> set QUESTIONS"
    by (simp add: QUESTIONS_def)
  have b: "list_all is_space [CHR '' '', CHR 0x09, CHR 0x0A]"
    by (simp add: is_space_def)
  have e: "list_all is_space []"
    by simp
  show ?thesis
    using m b blank_answer_scores_zero[OF m b] blank_answer_scores_zero[OF m e] by simp
qed

text \<open>
  C7. For the first question (q1), an answer whose normalized form contains SUMIFS
  scores 1; one whose normalized form contains SUMIF but not SUMIFS scores 0.9; any
  other answer scores 0. The example answer with SUMIFS scores 1 with a note that
  mentions SUMIFS, and the same formula with SUMIF scores 0.9.
\<close>

theorem sumifs_rule:
  \<open>(contains ''SUMIFS'' (normalize a) \<longrightarrow> fst (grade (QUESTIONS ! 0) a) = 1)
   \<and> (contains ''SUMIF'' (normalize a) \<and> \<not> contains ''SUMIFS'' (normalize a)
        \<longrightarrow> fst (grade (QUESTIONS ! 0) a) = 9 / 10)
   \<and> (\<not> contains ''SUMIFS'' (normalize a) \<and> \<not> contains ''SUMIF'' (normalize a)
        \<longrightarrow> fst (grade (QUESTIONS ! 0) a) = 0)
   \<and> qid (QUESTIONS ! 0) = ''q1''
   \<and> grade (QUESTIONS ! 0) ''=SUMIFS(B:B, A:A, "Sales")'' = (1, [''Uses SUMIFS''])
   \<and> contains ''SUMIFS'' (hd (snd (grade (QUESTIONS ! 0) ''=SUMIFS(B:B, A:A, "Sales")'')))
   \<and> fst (grade (QUESTIONS ! 0) ''=SUMIF(B:B,A:A,"Sales")'') = 9 / 10\<close>
proof -
  have general:
    "(contains ''SUMIFS'' (normalize a) \<longrightarrow> fst (check_sumifs a) = 1)
     \<and> (contains ''SUMIF'' (normalize a) \<and> \<not> contains ''SUMIFS'' (normalize a)
          \<longrightarrow> fst (check_sumifs a) = 9 / 10)
     \<and> (\<not> contains ''SUMIFS'' (normalize a) \<and> \<not> contains ''SUMIF'' (normalize a)
          \<longrightarrow> fst (check_sumifs a) = 0)"
    by (simp add: check_sumifs_def Let_def)
  have full: \<open>check_sumifs ''=SUMIFS(B:B, A:A, "Sales")'' = (1, [''Uses SUMIFS''])\<close>
    by code_simp
  have mention: "contains ''SUMIFS'' ''Uses SUMIFS''"
    by code_simp
  have single: \<open>fst (check_sumifs ''=SUMIF(B:B,A:A,"Sales")'') = 9 / 10\<close>
    by code_simp
  show ?thesis
    using general full mention single by (simp add: grade_first_question first_question_id)
qed

theorem sumifs_rule_witness:
  "contains ''SUMIFS'' (normalize ''= sumifs (b:b, a:a, 1)'')
   \<and> fst (grade (QUESTIONS ! 0) ''= sumifs (b:b, a:a, 1)'') = 1
   \<and> contains ''SUMIF'' (normalize ''sum if(b:b)'')
   \<and> \<not> contains ''SUMIFS'' (normalize ''sum if(b:b)'')
   \<and> fst (grade (QUESTIONS ! 0) ''sum if(b:b)'') = 9 / 10
   \<and> \<not> contains ''SUMIF'' (normalize ''=SUM(B:B)'')
   \<and> fst (grade (QUESTIONS ! 0) ''=SUM(B:B)'') = 0"
proof -
  have a: "contains ''SUMIFS'' (normalize ''= sumifs (b:b, a:a, 1)'')"
    by code_simp
  have b: "contains ''SUMIF'' (normalize ''sum if(b:b)'')"
    by code_simp
  have c: "\<not> contains ''SUMIFS'' (normalize ''sum if(b:b)'')"
    by code_simp
  have d: "\<not> contains ''SUMIF'' (normalize ''=SUM(B:B)'')"
    by code_simp
  have e: "\<not> contains ''SUMIFS'' (normalize ''=SUM(B:B)'')"
    by code_simp
  show ?thesis
    using a b c d e sumifs_rule[of "''= sumifs (b:b, a:a, 1)''"]
      sumifs_rule[of "''sum if(b:b)''"] sumifs_rule[of "''=SUM(B:B)''"]
    by simp
qed

text \<open>
  C8. For every question of the bank and every answer, the grade is a score between 0
  and 1 with at least one note; so the keyword rules hits/2, hits/3 and hits/4 never
  give more than 1.
\<close>

theorem grade_in_unit_interval:
  assumes "q \<in> set QUESTIONS"
  shows "0 \<le> fst (grade q a) \<and> fst (grade q a) \<le> 1 \<and> 1 \<le> length (snd (grade q a))"
proof -
  have "grade_ok (grade q a)"
    by (rule grade_is_ok)
  then show ?thesis
    by (cases "snd (grade q a)") (simp_all add: grade_ok_def)
qed

theorem grade_in_unit_interval_witness:
  "QUESTIONS ! 9 \<in> set QUESTIONS
   \<and> 0 \<le> fst (grade (QUESTIONS ! 9) ''pivot chart rows columns values month sum line'')
   \<and> fst (grade (QUESTIONS ! 9) ''pivot chart rows columns values month sum line'') \<le> 1
   \<and> 1 \<le> length (snd (grade (QUESTIONS ! 9) ''pivot chart rows columns values month sum line''))
   \<and> snd (grade (QUESTIONS ! 9) ''pivot chart rows columns values month sum line'')
       = [''matched 8 chart/pivot keywords'']"
proof -
  have m: "QUESTIONS ! 9 \<in> set QUESTIONS"
    by (simp add: QUESTIONS_def)
  have n: "snd (grade (QUESTIONS ! 9) ''pivot chart rows columns values month sum line'')
             = [''matched 8 chart/pivot keywords'']"
    by code_simp
  show ?thesis
    using m n grade_in_unit_interval[OF m, of "''pivot chart rows columns values month sum line''"]
    by simp
qed

text \<open>
  C4. The confidence classifier is a total function of the score: High from 0.8 on,
  Medium from 0.4 up to but not including 0.8, Low below 0.4. So 0.79 is Medium, 0.8
  is High, 0.39 is Low and 0.4 is Medium.
\<close>

theorem confidence_boundaries:
  "(8 / 10 \<le> s \<longrightarrow> confidence_label s = ''High'')
   \<and> (4 / 10 \<le> s \<and> s < 8 / 10 \<longrightarrow> confidence_label s = ''Medium'')
   \<and> (s < 4 / 10 \<longrightarrow> confidence_label s = ''Low'')
   \<and> confidence_label (79 / 100) = ''Medium''
   \<and> confidence_label (8 / 10) = ''High''
   \<and> confidence_label (39 / 100) = ''Low''
   \<and> confidence_label (4 / 10) = ''Medium''"
  by (simp add: confidence_label_def)

theorem confidence_boundaries_witness:
  "(8 / 10 :: rat) \<le> 9 / 10 \<and> confidence_label (9 / 10) = ''High''
   \<and> (4 / 10 :: rat) \<le> 1 / 2 \<and> (1 / 2 :: rat) < 8 / 10 \<and> confidence_label (1 / 2) = ''Medium''
   \<and> (1 / 3 :: rat) < 4 / 10 \<and> confidence_label (1 / 3) = ''Low''"
  using confidence_boundaries[of "9 / 10"] confidence_boundaries[of "1 / 2"]
    confidence_boundaries[of "1 / 3"]
  by simp

text \<open>
  C10. A score is below 0.4 exactly when its confidence label is Low; so the review
  queue of every generated report holds exactly the answered questions whose
  confidence is Low, in the order of the bank.
\<close>

theorem review_queue_is_low_confidence:
  "(s < 4 / 10 \<longleftrightarrow> confidence_label s = ''Low'')
   \<and> (final_report st = Some (r, ov) \<longrightarrow>
        review_queue r =
          map (\<lambda>q. \<lparr>ri_question = prompt q, ri_answer = get_or (responses st) (qid q) [],
                    ri_notes = get_or (all_notes st) (qid q) []\<rparr>)
            (filter (\<lambda>q. has_key (responses st) (qid q)
                        \<and> confidence_label (get_or (scores st) (qid q) 0) = ''Low'')
               QUESTIONS))"
proof -
  have "review_queue (collect st QUESTIONS) =
          map (\<lambda>q. \<lparr>ri_question = prompt q, ri_answer = get_or (responses st) (qid q) [],
                    ri_notes = get_or (all_notes st) (qid q) []\<rparr>)
            (filter (\<lambda>q. has_key (responses st) (qid q)
                        \<and> confidence_label (get_or (scores st) (qid q) 0) = ''Low'')
               QUESTIONS)"
    by (simp only: collect_review_queue low_iff[symmetric])
  then have queue: "final_report st = Some (r, ov) \<longrightarrow>
        review_queue r =
          map (\<lambda>q. \<lparr>ri_question = prompt q, ri_answer = get_or (responses st) (qid q) [],
                    ri_notes = get_or (all_notes st) (qid q) []\<rparr>)
            (filter (\<lambda>q. has_key (responses st) (qid q)
                        \<and> confidence_label (get_or (scores st) (qid q) 0) = ''Low'')
               QUESTIONS)"
    by (auto simp: final_report_def split: if_splits)
  have "s < 4 / 10 \<longleftrightarrow> confidence_label s = ''Low''"
    by (rule low_iff)
  with queue show ?thesis
    by blast
qed

theorem review_queue_is_low_confidence_witness:
  "final_report skipped_session = Some (collect skipped_session QUESTIONS, 0)
   \<and> confidence_label (get_or (scores skipped_session) ''q1'' 0) = ''Low''
   \<and> review_queue (collect skipped_session QUESTIONS) =
       [\<lparr>ri_question = prompt (QUESTIONS ! 0), ri_answer = [], ri_notes = [''skipped'']\<rparr>]"
proof -
  have f: "final_report skipped_session = Some (collect skipped_session QUESTIONS, 0)"
    by code_simp
  have l: "confidence_label (get_or (scores skipped_session) ''q1'' 0) = ''Low''"
    by code_simp
  have v: "map (\<lambda>q. \<lparr>ri_question = prompt q,
                     ri_answer = get_or (responses skipped_session) (qid q) [],
                     ri_notes = get_or (all_notes skipped_session) (qid q) []\<rparr>)
             (filter (\<lambda>q. has_key (responses skipped_session) (qid q)
                         \<and> confidence_label (get_or (scores skipped_session) (qid q) 0) = ''Low'')
                QUESTIONS)
           = [\<lparr>ri_question = prompt (QUESTIONS ! 0), ri_answer = [], ri_notes = [''skipped'']\<rparr>]"
    by code_simp
  show ?thesis
    using f l v
      review_queue_is_low_confidence[of 0 skipped_session "collect skipped_session QUESTIONS" 0]
    by simp
qed

text \<open>
  C9. In a generated report, the weaknesses are the answered questions with score at
  most 0.4, each prompt paired with its feedback, and the review queue is the answered
  questions with score strictly below 0.4, each with its full answer and notes. An
  answered question with score exactly 0.4 is therefore among the weaknesses and not
  in the review queue.
\<close>

theorem boundary_weakness_not_review:
  assumes "final_report st = Some (r, ov)"
  shows "weaknesses r =
           map (\<lambda>q. (prompt q, feedback_from_notes (qid q) (get_or (all_notes st) (qid q) [])))
             (filter (\<lambda>q. has_key (responses st) (qid q) \<and> get_or (scores st) (qid q) 0 \<le> 4 / 10)
                QUESTIONS)
         \<and> review_queue r =
           map (\<lambda>q. \<lparr>ri_question = prompt q, ri_answer = get_or (responses st) (qid q) [],
                     ri_notes = get_or (all_notes st) (qid q) []\<rparr>)
             (filter (\<lambda>q. has_key (responses st) (qid q) \<and> get_or (scores st) (qid q) 0 < 4 / 10)
                QUESTIONS)
         \<and> (\<forall>q \<in> set QUESTIONS.
               has_key (responses st) (qid q) \<and> get_or (scores st) (qid q) 0 = 4 / 10 \<longrightarrow>
                 (prompt q, feedback_from_notes (qid q) (get_or (all_notes st) (qid q) []))
                   \<in> set (weaknesses r)
                 \<and> prompt q \<notin> ri_question ` set (review_queue r))"
proof -
  from assms have r: "r = collect st QUESTIONS"
    by (auto simp: final_report_def split: if_splits)
  have w: "weaknesses r =
           map (\<lambda>q. (prompt q, feedback_from_notes (qid q) (get_or (all_notes st) (qid q) [])))
             (filter (\<lambda>q. has_key (responses st) (qid q) \<and> get_or (scores st) (qid q) 0 \<le> 4 / 10)
                QUESTIONS)"
    unfolding r by (rule collect_weaknesses)
  have v: "review_queue r =
           map (\<lambda>q. \<lparr>ri_question = prompt q, ri_answer = get_or (responses st) (qid q) [],
                     ri_notes = get_or (all_notes st) (qid q) []\<rparr>)
             (filter (\<lambda>q. has_key (responses st) (qid q) \<and> get_or (scores st) (qid q) 0 < 4 / 10)
                QUESTIONS)"
    unfolding r by (rule collect_review_queue)
  have b: "(prompt q, feedback_from_notes (qid q) (get_or (all_notes st) (qid q) []))
             \<in> set (weaknesses r)
           \<and> prompt q \<notin> ri_question ` set (review_queue r)"
    if q: "q \<in> set QUESTIONS" and k: "has_key (responses st) (qid q)"
      and s: "get_or (scores st) (qid q) 0 = 4 / 10" for q
  proof
    show "(prompt q, feedback_from_notes (qid q) (get_or (all_notes st) (qid q) []))
            \<in> set (weaknesses r)"
      unfolding w using q k s by (simp add: image_iff) force
    show "prompt q \<notin> ri_question ` set (review_queue r)"
    proof
      assume "prompt q \<in> ri_question ` set (review_queue r)"
      then obtain q' where q': "q' \<in> set QUESTIONS" "get_or (scores st) (qid q') 0 < 4 / 10"
        "prompt q' = prompt q"
        unfolding v by auto
      then have "q' = q"
        using q prompt_inj by blast
      with q' s show False
        by simp
    qed
  qed
  show ?thesis
    using w v b by blast
qed

theorem boundary_weakness_not_review_witness:
  "final_report boundary_session = Some (collect boundary_session QUESTIONS, 7 / 2)
   \<and> QUESTIONS ! 0 \<in> set QUESTIONS
   \<and> has_key (responses boundary_session) (qid (QUESTIONS ! 0))
   \<and> get_or (scores boundary_session) (qid (QUESTIONS ! 0)) 0 = 4 / 10
   \<and> (prompt (QUESTIONS ! 0),
        feedback_from_notes (qid (QUESTIONS ! 0))
          (get_or (all_notes boundary_session) (qid (QUESTIONS ! 0)) []))
       \<in> set (weaknesses (collect boundary_session QUESTIONS))
   \<and> prompt (QUESTIONS ! 0) \<notin> ri_question ` set (review_queue (collect boundary_session QUESTIONS))"
proof -
  have f: "final_report boundary_session = Some (collect boundary_session QUESTIONS, 7 / 2)"
    by code_simp
  have m: "QUESTIONS ! 0 \<in> set QUESTIONS"
    by (simp add: QUESTIONS_def)
  have k: "has_key (responses boundary_session) (qid (QUESTIONS ! 0))"
    by code_simp
  have s: "get_or (scores boundary_session) (qid (QUESTIONS ! 0)) 0 = 4 / 10"
    by code_simp
  show ?thesis
    using f m k s boundary_weakness_not_review[OF f] by blast
qed

text \<open>
  C1, as the code has it. Whenever a response exists, the overall score shown in the
  top bar and the one of the report and its transcript are both
  100 times the sum of score times weight over the questions with a recorded score,
  divided by 23, the sum of the weights of all ten questions of the bank, rounded to one
  decimal. A question without a recorded score adds nothing to the numerator and
  still counts with its weight in the denominator.
\<close>

theorem overall_divides_by_bank_weight:
  assumes "responses st \<noteq> []"
  shows "header_overall st =
           round1 (100 * (sum_list (map (\<lambda>q. get_or (scores st) (qid q) 0 * of_int (weight q))
                                     (filter (\<lambda>q. has_key (scores st) (qid q)) QUESTIONS)) / 23))
         \<and> map_option snd (final_report st) =
           Some (round1 (100 * (sum_list (map (\<lambda>q. get_or (scores st) (qid q) 0 * of_int (weight q))
                                     (filter (\<lambda>q. has_key (scores st) (qid q)) QUESTIONS)) / 23)))
         \<and> sum_list (map weight QUESTIONS) = 23"
proof -
  have "overall_of st QUESTIONS =
          round1 (100 * (sum_list (map (\<lambda>q. get_or (scores st) (qid q) 0 * of_int (weight q))
                                     (filter (\<lambda>q. has_key (scores st) (qid q)) QUESTIONS)) / 23))"
    by (simp add: overall_of_def total_w_bank score_sum_graded)
  moreover have "sum_list (map weight QUESTIONS) = 23"
    using total_w_bank by (simp add: total_w_def)
  ultimately show ?thesis
    using assms by (simp add: header_overall_def final_report_def)
qed

theorem overall_divides_by_bank_weight_witness:
  "responses one_answer_session \<noteq> []
   \<and> header_overall one_answer_session = 87 / 10
   \<and> map_option snd (final_report one_answer_session) = Some (87 / 10)"
proof -
  have h: "responses one_answer_session \<noteq> []"
    by code_simp
  have v: "round1 (100 * (sum_list (map (\<lambda>q. get_or (scores one_answer_session) (qid q) 0
                                             * of_int (weight q))
                            (filter (\<lambda>q. has_key (scores one_answer_session) (qid q)) QUESTIONS))
                          / 23)) = 87 / 10"
    by code_simp
  have a: "header_overall one_answer_session = 87 / 10"
    using overall_divides_by_bank_weight[OF h] unfolding v by (rule conjunct1)
  have b: "map_option snd (final_report one_answer_session) = Some (87 / 10)"
    using overall_divides_by_bank_weight[OF h] unfolding v by blast
  show ?thesis
    using h a b by blast
qed

text \<open>
  C1, as the specification states it, fails. After Start and one Submit of the example
  answer to the first question, only that question (weight 2, score 1) has a recorded
  grade: the formula over the graded questions alone gives 100, and the code shows 8.7.
\<close>

theorem overall_not_over_answered_only:
  "has_key (scores one_answer_session) ''q1''
   \<and> map fst (scores one_answer_session) = [''q1'']
   \<and> answered_overall one_answer_session QUESTIONS = 100
   \<and> header_overall one_answer_session = 87 / 10
   \<and> map_option snd (final_report one_answer_session) = Some (87 / 10)
   \<and> header_overall one_answer_session \<noteq> answered_overall one_answer_session QUESTIONS"
  by code_simp

text \<open>
  C2, as the code has it. The loop over the columns overwrites its choice at every
  match, so the date column is the last column, in the table's column order, whose
  name contains "date", and the sales column is the last one whose name contains
  "sales", "amount" or "revenue".
\<close>

theorem last_matching_column_selected:
  "find_cols cols None None = (find is_date_name (rev cols), find is_sales_name (rev cols))"
  by (rule find_cols_start)

theorem last_matching_column_selected_witness:
  "find_cols [''Date'', ''OrderDate'', ''Sales'', ''Amount''] None None
     = (Some ''OrderDate'', Some ''Amount'')"
proof -
  have "find is_date_name (rev [''Date'', ''OrderDate'', ''Sales'', ''Amount'']) = Some ''OrderDate''"
    by code_simp
  moreover have "find is_sales_name (rev [''Date'', ''OrderDate'', ''Sales'', ''Amount'']) = Some ''Amount''"
    by code_simp
  ultimately show ?thesis
    using last_matching_column_selected[of "[''Date'', ''OrderDate'', ''Sales'', ''Amount'']"]
    by simp
qed

text \<open>
  C2, as the specification states it, fails. With the columns Date, OrderDate, Sales,
  Amount the first date match is Date and the first sales match is Sales; the code
  selects OrderDate and Amount. The choice shows in the note of a table that has no
  sales column.
\<close>

theorem first_matching_column_not_selected:
  "find is_date_name [''Date'', ''OrderDate'', ''Sales'', ''Amount''] = Some ''Date''
   \<and> find is_sales_name [''Date'', ''OrderDate'', ''Sales'', ''Amount''] = Some ''Sales''
   \<and> find_cols [''Date'', ''OrderDate'', ''Sales'', ''Amount''] None None
       = (Some ''OrderDate'', Some ''Amount'')
   \<and> pivot_validate_dataframe header_only [Text ''Date'', Text ''OrderDate'']
       = Inr (False, ''Missing columns: date_col=OrderDate, sales_col=None'', None)"
  by code_simp

text \<open>
  C3. The validator never lets an exception reach its caller: for every table and
  every behaviour of the library it returns a triple. When a step of the validation
  raises (the scan of the column labels on a label that is not text, the date
  conversion, the test for missing dates, the numeric conversion, the grouping by
  month, or the reading of the first total), the triple is ok = false, the note
  "Pivot validation error: " followed by the text of the exception, and no aggregate;
  the text of the exception is contained in that note.
\<close>

theorem validator_never_propagates:
  "(\<exists>ok note agg. pivot_validate_dataframe P df = Inr (ok, note, agg))
   \<and> (strip_lower_all (pd_columns P df) = Inl e \<longrightarrow>
        pivot_validate_dataframe P df = Inr (False, ''Pivot validation error: '' @ e, None))
   \<and> (\<forall>cols d s.
        strip_lower_all (pd_columns P df) = Inr cols
        \<and> find_cols (label_texts (pd_columns P df)) None None = (Some d, Some s) \<longrightarrow>
        (pd_to_datetime P df d = Inl e \<longrightarrow>
           pivot_validate_dataframe P df = Inr (False, ''Pivot validation error: '' @ e, None))
        \<and> (\<forall>df2. pd_to_datetime P df d = Inr df2 \<longrightarrow>
             (pd_isna_all P df2 d = Inl e \<longrightarrow>
                pivot_validate_dataframe P df = Inr (False, ''Pivot validation error: '' @ e, None))
             \<and> (pd_isna_all P df2 d = Inr False \<longrightarrow>
                  (pd_to_numeric P df2 s = Inl e \<longrightarrow>
                     pivot_validate_dataframe P df
                       = Inr (False, ''Pivot validation error: '' @ e, None))
                  \<and> (\<forall>df3. pd_to_numeric P df2 s = Inr df3 \<longrightarrow>
                       (pd_monthly P df3 d s = Inl e \<longrightarrow>
                          pivot_validate_dataframe P df
                            = Inr (False, ''Pivot validation error: '' @ e, None))
                       \<and> (\<forall>m. pd_monthly P df3 d s = Inr m \<and> 0 < pd_len P m
                               \<and> pd_first_total P m s = Inl e \<longrightarrow>
                             pivot_validate_dataframe P df
                               = Inr (False, ''Pivot validation error: '' @ e, None))))))
   \<and> contains e (''Pivot validation error: '' @ e)"
proof -
  have returns: "\<exists>ok note agg. pivot_validate_dataframe P df = Inr (ok, note, agg)"
    by (rule always_returns)
  have scan: "pivot_validate_dataframe P df = Inr (False, ''Pivot validation error: '' @ e, None)"
    if "strip_lower_all (pd_columns P df) = Inl e"
    using that by (intro handler_catches try_scan_raises)
  have steps:
    "(pd_to_datetime P df d = Inl e \<longrightarrow>
           pivot_validate_dataframe P df = Inr (False, ''Pivot validation error: '' @ e, None))
        \<and> (\<forall>df2. pd_to_datetime P df d = Inr df2 \<longrightarrow>
             (pd_isna_all P df2 d = Inl e \<longrightarrow>
                pivot_validate_dataframe P df = Inr (False, ''Pivot validation error: '' @ e, None))
             \<and> (pd_isna_all P df2 d = Inr False \<longrightarrow>
                  (pd_to_numeric P df2 s = Inl e \<longrightarrow>
                     pivot_validate_dataframe P df
                       = Inr (False, ''Pivot validation error: '' @ e, None))
                  \<and> (\<forall>df3. pd_to_numeric P df2 s = Inr df3 \<longrightarrow>
                       (pd_monthly P df3 d s = Inl e \<longrightarrow>
                          pivot_validate_dataframe P df
                            = Inr (False, ''Pivot validation error: '' @ e, None))
                       \<and> (\<forall>m. pd_monthly P df3 d s = Inr m \<and> 0 < pd_len P m
                               \<and> pd_first_total P m s = Inl e \<longrightarrow>
                             pivot_validate_dataframe P df
                               = Inr (False, ''Pivot validation error: '' @ e, None)))))"
    if c: "strip_lower_all (pd_columns P df) = Inr cols"
      and f: "find_cols (label_texts (pd_columns P df)) None None = (Some d, Some s)"
    for cols d s
  proof (intro conjI allI impI)
    assume "pd_to_datetime P df d = Inl e"
    then show "pivot_validate_dataframe P df = Inr (False, ''Pivot validation error: '' @ e, None)"
      by (intro handler_catches try_dates_raise[OF c f])
  next
    fix df2
    assume "pd_to_datetime P df d = Inr df2" "pd_isna_all P df2 d = Inl e"
    then show "pivot_validate_dataframe P df = Inr (False, ''Pivot validation error: '' @ e, None)"
      by (intro handler_catches try_isna_raises[OF c f])
  next
    fix df2
    assume "pd_to_datetime P df d = Inr df2" "pd_isna_all P df2 d = Inr False"
      "pd_to_numeric P df2 s = Inl e"
    then show "pivot_validate_dataframe P df = Inr (False, ''Pivot validation error: '' @ e, None)"
      by (intro handler_catches try_numeric_raises[OF c f])
  next
    fix df2 df3
    assume "pd_to_datetime P df d = Inr df2" "pd_isna_all P df2 d = Inr False"
      "pd_to_numeric P df2 s = Inr df3" "pd_monthly P df3 d s = Inl e"
    then show "pivot_validate_dataframe P df = Inr (False, ''Pivot validation error: '' @ e, None)"
      by (intro handler_catches try_monthly_raises[OF c f])
  next
    fix df2 df3 m
    assume h: "pd_to_datetime P df d = Inr df2" "pd_isna_all P df2 d = Inr False"
      "pd_to_numeric P df2 s = Inr df3"
      and m: "pd_monthly P df3 d s = Inr m \<and> 0 < pd_len P m \<and> pd_first_total P m s = Inl e"
    from m have "pd_monthly P df3 d s = Inr m" "0 < pd_len P m" "pd_first_total P m s = Inl e"
      by simp_all
    then show "pivot_validate_dataframe P df = Inr (False, ''Pivot validation error: '' @ e, None)"
      by (intro handler_catches try_total_raises[OF c f h])
  qed
  have text_in_note: "contains e (''Pivot validation error: '' @ e)"
    by (rule contains_suffix)
  show ?thesis
    using returns scan steps text_in_note by blast
qed

theorem validator_never_propagates_witness:
  "strip_lower_all (pd_columns header_only [Other ''int'', Text ''Sales''])
     = Inl (attribute_error ''int'')
   \<and> attribute_error ''int'' = [CHR 0x27] @ ''int' object has no attribute 'strip'' @ [CHR 0x27]
   \<and> pivot_validate_dataframe header_only [Other ''int'', Text ''Sales'']
     = Inr (False, ''Pivot validation error: '' @ attribute_error ''int'', None)
   \<and> pivot_validate_dataframe (failing_step 1 ''Out of bounds nanosecond timestamp'')
       [Text ''OrderDate'', Text ''SalesAmount'']
     = Inr (False, ''Pivot validation error: Out of bounds nanosecond timestamp'', None)
   \<and> contains ''Out of bounds nanosecond timestamp''
       (''Pivot validation error: '' @ ''Out of bounds nanosecond timestamp'')
   \<and> pivot_validate_dataframe (failing_step 5 ''0'')
       [Text ''OrderDate'', Text ''SalesAmount'']
     = Inr (False, ''Pivot validation error: 0'', None)
   \<and> pivot_validate_dataframe (failing_step 0 [])
       [Text ''OrderDate'', Text ''SalesAmount'']
     = Inr (True,
            ''Pivot OK '' @ em_dash @ '' found 1 months; sample total for first month: 10.0'',
            Some ())"
proof -
  have c5: "strip_lower_all (pd_columns (failing_step 5 ''0'')
             [Text ''OrderDate'', Text ''SalesAmount'']) = Inr [''orderdate'', ''salesamount'']"
    by code_simp
  have f5: "find_cols (label_texts (pd_columns (failing_step 5 ''0'')
             [Text ''OrderDate'', Text ''SalesAmount''])) None None
           = (Some ''OrderDate'', Some ''SalesAmount'')"
    by code_simp
  have s5:
    "pd_to_datetime (failing_step 5 ''0'') [Text ''OrderDate'', Text ''SalesAmount''] ''OrderDate''
       = Inr [Text ''OrderDate'', Text ''SalesAmount'']"
    "pd_isna_all (failing_step 5 ''0'') [Text ''OrderDate'', Text ''SalesAmount''] ''OrderDate''
       = Inr False"
    "pd_to_numeric (failing_step 5 ''0'') [Text ''OrderDate'', Text ''SalesAmount''] ''SalesAmount''
       = Inr [Text ''OrderDate'', Text ''SalesAmount'']"
    "pd_monthly (failing_step 5 ''0'') [Text ''OrderDate'', Text ''SalesAmount'']
       ''OrderDate'' ''SalesAmount'' = Inr ()"
    "0 < pd_len (failing_step 5 ''0'') ()"
    "pd_first_total (failing_step 5 ''0'') () ''SalesAmount'' = Inl ''0''"
    by (simp_all add: failing_step_def)
  have last: "pivot_validate_dataframe (failing_step 5 ''0'')
       [Text ''OrderDate'', Text ''SalesAmount'']
     = Inr (False, ''Pivot validation error: '' @ ''0'', None)"
    using c5 f5 s5
      validator_never_propagates[of "failing_step 5 ''0''"
        "[Text ''OrderDate'', Text ''SalesAmount'']" "''0''"]
    by blast
  have fine: "pivot_validate_dataframe (failing_step 0 [])
       [Text ''OrderDate'', Text ''SalesAmount'']
     = Inr (True,
            ''Pivot OK '' @ em_dash @ '' found 1 months; sample total for first month: 10.0'',
            Some ())"
    by code_simp
  have a: "strip_lower_all (pd_columns header_only [Other ''int'', Text ''Sales''])
             = Inl (attribute_error ''int'')"
    by code_simp
  have t: "attribute_error ''int'' = [CHR 0x27] @ ''int' object has no attribute 'strip'' @ [CHR 0x27]"
    by code_simp
  have c: "strip_lower_all (pd_columns (failing_step 1 ''Out of bounds nanosecond timestamp'')
             [Text ''OrderDate'', Text ''SalesAmount'']) = Inr [''orderdate'', ''salesamount'']"
    by code_simp
  have f: "find_cols (label_texts (pd_columns (failing_step 1 ''Out of bounds nanosecond timestamp'')
             [Text ''OrderDate'', Text ''SalesAmount''])) None None
           = (Some ''OrderDate'', Some ''SalesAmount'')"
    by code_simp
  have r: "pd_to_datetime (failing_step 1 ''Out of bounds nanosecond timestamp'')
             [Text ''OrderDate'', Text ''SalesAmount''] ''OrderDate''
           = Inl ''Out of bounds nanosecond timestamp''"
    by code_simp
  have scan: "pivot_validate_dataframe header_only [Other ''int'', Text ''Sales'']
     = Inr (False, ''Pivot validation error: '' @ attribute_error ''int'', None)"
    using a validator_never_propagates[of header_only "[Other ''int'', Text ''Sales'']"
        "attribute_error ''int''"]
    by blast
  have step: "pivot_validate_dataframe (failing_step 1 ''Out of bounds nanosecond timestamp'')
       [Text ''OrderDate'', Text ''SalesAmount'']
     = Inr (False, ''Pivot validation error: '' @ ''Out of bounds nanosecond timestamp'', None)"
    using c f r
      validator_never_propagates[of "failing_step 1 ''Out of bounds nanosecond timestamp''"
        "[Text ''OrderDate'', Text ''SalesAmount'']" "''Out of bounds nanosecond timestamp''"]
    by blast
  have inside: "contains ''Out of bounds nanosecond timestamp''
       (''Pivot validation error: '' @ ''Out of bounds nanosecond timestamp'')"
    using validator_never_propagates[of "failing_step 1 ''Out of bounds nanosecond timestamp''"
        "[Text ''OrderDate'', Text ''SalesAmount'']" "''Out of bounds nanosecond timestamp''"]
    by blast
  show ?thesis
    using a t scan step inside last fine by simp
qed

text \<open>
  C5, as the code has it. For every table whose column labels are all text and in
  which no column name contains "date", or none contains "sales", "amount" or "revenue"
  (case-insensitively), the validator returns ok = false, no aggregate, and the note
  "Missing columns: date_col=..., sales_col=..." in which a column that was not found
  reads None.
\<close>

theorem missing_column_reported:
  assumes "list_all is_text (pd_columns P df)"
    and "\<not> list_ex is_date_label (pd_columns P df) \<or> \<not> list_ex is_sales_label (pd_columns P df)"
  shows "pivot_validate_dataframe P df =
           Inr (False,
                ''Missing columns: date_col=''
                  @ show_col (find is_date_name (rev (label_texts (pd_columns P df))))
                  @ '', sales_col=''
                  @ show_col (find is_sales_name (rev (label_texts (pd_columns P df)))),
                None)
         \<and> (\<not> list_ex is_date_label (pd_columns P df) \<longrightarrow>
               show_col (find is_date_name (rev (label_texts (pd_columns P df)))) = ''None'')
         \<and> (\<not> list_ex is_sales_label (pd_columns P df) \<longrightarrow>
               show_col (find is_sales_name (rev (label_texts (pd_columns P df)))) = ''None'')"
proof -
  obtain cols where c: "strip_lower_all (pd_columns P df) = Inr cols"
    using strip_lower_all_text[OF assms(1)] by blast
  have d: "find is_date_name (rev (label_texts (pd_columns P df))) = None"
    if "\<not> list_ex is_date_label (pd_columns P df)"
  proof -
    from that have "\<not> list_ex is_date_name (label_texts (pd_columns P df))"
      by (simp add: label_texts_date)
    then show ?thesis
      by (simp add: find_none_iff_ex list_ex_iff)
  qed
  have s: "find is_sales_name (rev (label_texts (pd_columns P df))) = None"
    if "\<not> list_ex is_sales_label (pd_columns P df)"
  proof -
    from that have "\<not> list_ex is_sales_name (label_texts (pd_columns P df))"
      by (simp add: label_texts_sales)
    then show ?thesis
      by (simp add: find_none_iff_ex list_ex_iff)
  qed
  have "find is_date_name (rev (label_texts (pd_columns P df))) = None
        \<or> find is_sales_name (rev (label_texts (pd_columns P df))) = None"
    using assms(2) d s by auto
  with c have "pivot_validate_try P df =
     Inr (False,
          ''Missing columns: date_col=''
            @ show_col (find is_date_name (rev (label_texts (pd_columns P df))))
            @ '', sales_col=''
            @ show_col (find is_sales_name (rev (label_texts (pd_columns P df)))),
          None)"
    by (rule try_missing)
  then show ?thesis
    using d s by (simp add: pivot_validate_dataframe_def show_col_def)
qed

theorem missing_column_reported_witness:
  "list_all is_text (pd_columns header_only [Text ''Region'', Text ''SalesAmount''])
   \<and> \<not> list_ex is_date_label (pd_columns header_only [Text ''Region'', Text ''SalesAmount''])
   \<and> pivot_validate_dataframe header_only [Text ''Region'', Text ''SalesAmount'']
       = Inr (False, ''Missing columns: date_col=None, sales_col=SalesAmount'', None)
   \<and> list_all is_text (pd_columns header_only [Text ''OrderDate'', Text ''Region''])
   \<and> \<not> list_ex is_sales_label (pd_columns header_only [Text ''OrderDate'', Text ''Region''])
   \<and> pivot_validate_dataframe header_only [Text ''OrderDate'', Text ''Region'']
       = Inr (False, ''Missing columns: date_col=OrderDate, sales_col=None'', None)"
proof -
  have t1: "list_all is_text (pd_columns header_only [Text ''Region'', Text ''SalesAmount''])"
    by code_simp
  have t2: "list_all is_text (pd_columns header_only [Text ''OrderDate'', Text ''Region''])"
    by code_simp
  have a: "\<not> list_ex is_date_label (pd_columns header_only [Text ''Region'', Text ''SalesAmount''])"
    by code_simp
  have b: "\<not> list_ex is_sales_label (pd_columns header_only [Text ''OrderDate'', Text ''Region''])"
    by code_simp
  have c: "''Missing columns: date_col=''
             @ show_col (find is_date_name
                 (rev (label_texts (pd_columns header_only [Text ''Region'', Text ''SalesAmount'']))))
             @ '', sales_col=''
             @ show_col (find is_sales_name
                 (rev (label_texts (pd_columns header_only [Text ''Region'', Text ''SalesAmount'']))))
           = ''Missing columns: date_col=None, sales_col=SalesAmount''"
    by code_simp
  have d: "''Missing columns: date_col=''
             @ show_col (find is_date_name
                 (rev (label_texts (pd_columns header_only [Text ''OrderDate'', Text ''Region'']))))
             @ '', sales_col=''
             @ show_col (find is_sales_name
                 (rev (label_texts (pd_columns header_only [Text ''OrderDate'', Text ''Region'']))))
           = ''Missing columns: date_col=OrderDate, sales_col=None''"
    by code_simp
  have r1: "pivot_validate_dataframe header_only [Text ''Region'', Text ''SalesAmount'']
       = Inr (False, ''Missing columns: date_col=None, sales_col=SalesAmount'', None)"
    using missing_column_reported[OF t1 disjI1[OF a]] unfolding c by (rule conjunct1)
  have r2: "pivot_validate_dataframe header_only [Text ''OrderDate'', Text ''Region'']
       = Inr (False, ''Missing columns: date_col=OrderDate, sales_col=None'', None)"
    using missing_column_reported[OF t2 disjI2[OF b]] unfolding d by (rule conjunct1)
  show ?thesis
    using t1 t2 a b r1 r2 by blast
qed

text \<open>
  C5, as the specification states it for every input table, fails. A table read from
  a spreadsheet whose first header cell holds a number and whose second is Sales has
  no column name that contains "date"; the scan of the labels raises on the number,
  and the note is that of the exception, which names no missing column.
\<close>

theorem missing_column_note_needs_text_labels:
  "\<not> list_ex is_date_label (pd_columns header_only [Other ''int'', Text ''Sales''])
   \<and> pivot_validate_dataframe header_only [Other ''int'', Text ''Sales'']
       = Inr (False,
              ''Pivot validation error: '' @ [CHR 0x27]
                @ ''int' object has no attribute 'strip'' @ [CHR 0x27],
              None)
   \<and> \<not> contains ''Missing columns''
          (''Pivot validation error: '' @ [CHR 0x27]
             @ ''int' object has no attribute 'strip'' @ [CHR 0x27])
   \<and> \<not> contains ''date_col''
          (''Pivot validation error: '' @ [CHR 0x27]
             @ ''int' object has no attribute 'strip'' @ [CHR 0x27])"
  by code_simp

end
